theory Spec2Isabelle
  imports Complex_Main "HOL-Library.Log_Nat"
begin

section \<open>JavaScript values the gateway computes with\<close>

text \<open>
  A JavaScript number is an IEEE 754 binary64 value: \<open>NaN\<close>, one of the two
  infinities, or a finite number, carried as the rational it denotes. The two zeros are
  one value here (they are equal and both falsy in JavaScript).
\<close>

datatype jsnum = NaN | PosInf | NegInf | Num rat

definition pow2 :: "int \<Rightarrow> rat" where
  "pow2 e = (if 0 \<le> e then 2 ^ nat e else 1 / 2 ^ nat (- e))"

text \<open>For \<open>a > 0\<close>, the exponent \<open>b\<close> with \<open>2\<^sup>b \<le> a < 2\<^sup>b\<^sup>+\<^sup>1\<close>.\<close>

definition binade :: "rat \<Rightarrow> int" where
  "binade a = (if 1 \<le> a then bitlen \<lfloor>a\<rfloor> - 1 else - bitlen (\<lceil>1 / a\<rceil> - 1))"

definition round_half_even :: "rat \<Rightarrow> int" where
  "round_half_even y =
     (let f = \<lfloor>y\<rfloor>; d = y - of_int f
      in if d < 1 / 2 then f else if 1 / 2 < d then f + 1 else if even f then f else f + 1)"

text \<open>
  The binary64 value nearest to a rational, ties to the even significand: 53 bits of
  significand, the least exponent \<open>-1074\<close> (subnormal numbers), and overflow to an
  infinity from \<open>2\<^sup>1\<^sup>0\<^sup>2\<^sup>4\<close> on. This is what reading a JSON number and what every
  arithmetic operation on finite numbers do.
\<close>

definition round64 :: "rat \<Rightarrow> jsnum" where
  "round64 x =
     (if x = 0 then Num 0
      else
        let a = \<bar>x\<bar>;
            e = max (binade a - 52) (- 1074);
            r = of_int (round_half_even (a / pow2 e)) * pow2 e
        in if pow2 1024 \<le> r then (if 0 < x then PosInf else NegInf)
           else Num (if 0 < x then r else - r))"

text \<open>\<open>x + y\<close> on numbers: the exact sum, rounded once.\<close>

fun js_add :: "jsnum \<Rightarrow> jsnum \<Rightarrow> jsnum" where
  "js_add (Num a) (Num b) = round64 (a + b)"
| "js_add NaN _ = NaN"
| "js_add _ NaN = NaN"
| "js_add PosInf NegInf = NaN"
| "js_add NegInf PosInf = NaN"
| "js_add PosInf _ = PosInf"
| "js_add _ PosInf = PosInf"
| "js_add NegInf _ = NegInf"
| "js_add _ NegInf = NegInf"

instantiation jsnum :: "{zero, plus}"
begin

definition zero_jsnum :: jsnum where
  "zero_jsnum = Num 0"

definition plus_jsnum :: "jsnum \<Rightarrow> jsnum \<Rightarrow> jsnum" where
  "plus_jsnum = js_add"

instance ..

end

text \<open>\<open>0\<close> and \<open>NaN\<close> are the falsy numbers.\<close>

fun truthy_num :: "jsnum \<Rightarrow> bool" where
  "truthy_num NaN = False"
| "truthy_num (Num r) = (r \<noteq> 0)"
| "truthy_num _ = True"


text \<open>
  What a field holds after \<open>field = a\<close> for the first amount (or nothing yet, \<open>None\<close>)
  and \<open>field += a\<close> for each later amount, in order.
\<close>

fun accumulate :: "jsnum option \<Rightarrow> jsnum list \<Rightarrow> jsnum option" where
  "accumulate acc [] = acc"
| "accumulate None (a # as) = accumulate (Some a) as"
| "accumulate (Some v) (a # as) = accumulate (Some (v + a)) as"




text \<open>
  A value that may be \<open>undefined\<close> or \<open>null\<close> is an \<open>option\<close>: both are nullish for
  \<open>?.\<close> and falsy for \<open>||\<close>, so \<open>None\<close> stands for either. The empty string is the
  falsy string.
\<close>

definition truthy_str :: "string option \<Rightarrow> bool" where
  "truthy_str x = (case x of None \<Rightarrow> False | Some s \<Rightarrow> s \<noteq> [])"

definition or_num :: "jsnum option \<Rightarrow> jsnum \<Rightarrow> jsnum" where
  \<comment> \<open>\<open>x || d\<close> at a number\<close>
  "or_num x d = (case x of None \<Rightarrow> d | Some n \<Rightarrow> if truthy_num n then n else d)"

definition or_str :: "string option \<Rightarrow> string \<Rightarrow> string" where
  \<comment> \<open>\<open>x || d\<close> at a string\<close>
  "or_str x d = (case x of None \<Rightarrow> d | Some s \<Rightarrow> if s \<noteq> [] then s else d)"

definition or_null :: "string option \<Rightarrow> string option" where
  \<comment> \<open>\<open>x || null\<close> at a string\<close>
  "or_null x = (if truthy_str x then x else None)"

text \<open>
  A JSON value, as \<open>express.json()\<close> parses a request body and as the external service
  answers. A number that came through JSON is never \<open>NaN\<close>. A member or variable that
  may be \<open>undefined\<close> is a \<open>json option\<close>.
\<close>

datatype json =
    JNull
  | JBool bool
  | JNum rat
  | JStr string
  | JArr "json list"
  | JObj "(string \<times> json) list"

fun truthy :: "json option \<Rightarrow> bool" where
  "truthy None = False"
| "truthy (Some JNull) = False"
| "truthy (Some (JBool b)) = b"
| "truthy (Some (JNum r)) = (r \<noteq> 0)"
| "truthy (Some (JStr s)) = (s \<noteq> [])"
| "truthy (Some (JArr xs)) = True"
| "truthy (Some (JObj kvs)) = True"

datatype error = TypeError

text \<open>
  \<open>v.k\<close> throws on \<open>null\<close>; \<open>v?.k\<close> gives \<open>undefined\<close> on \<open>undefined\<close> and \<open>null\<close>.
  Only named members of objects are read here, never \<open>length\<close> or an index.
\<close>

fun member :: "json \<Rightarrow> string \<Rightarrow> error + json option" where
  "member JNull k = Inl TypeError"
| "member (JObj kvs) k = Inr (map_of kvs k)"
| "member _ k = Inr None"

fun opt_member :: "json option \<Rightarrow> string \<Rightarrow> json option" where
  "opt_member (Some (JObj kvs)) k = map_of kvs k"
| "opt_member _ k = None"

section \<open>External records\<close>

text \<open>
  A page of the external database, restricted to what the fetch handler reads. Every
  level of every path the handler follows may be missing (\<open>None\<close>).
\<close>

record text_obj =
  content :: "string option"

record rich_text_item =
  item_text :: "text_obj option"

record number_prop =
  np_number :: "jsnum option"

record title_prop =
  tp_title :: "rich_text_item list option"

record rich_text_prop =
  rp_rich_text :: "rich_text_item list option"

record date_obj =
  start :: "string option"

record date_prop =
  dp_date :: "date_obj option"

record select_obj =
  sel_name :: "string option"

record select_prop =
  sp_select :: "select_obj option"

record properties =
  Amount :: "number_prop option"
  Name :: "title_prop option"
  Product_Name :: "rich_text_prop option"
  Order_Date :: "date_prop option"
  Select :: "select_prop option"

record page =
  page_id :: "string option"
  page_properties :: "properties option"

record sale =
  amount :: jsnum
  customerName :: string
  productName :: string
  date :: "string option"
  paymentMethod :: string

section \<open>Record normalization\<close>

text \<open>
  \<open>items[0]?.text?.content\<close>: the first element of an array that exists; an empty
  array gives \<open>undefined\<close>.
\<close>

definition first_content :: "rich_text_item list \<Rightarrow> string option" where
  "first_content items =
     (case items of
        [] \<Rightarrow> None
      | it # _ \<Rightarrow> (case item_text it of None \<Rightarrow> None | Some t \<Rightarrow> content t))"

text \<open>
  \<open>page.properties["Name"]?.title[0]?.text?.content\<close>. A missing property ends the
  whole chain with \<open>undefined\<close>; a property that is there is asked for \<open>title\<close> and the
  result is indexed without \<open>?.\<close>, which throws when \<open>title\<close> is missing.
\<close>

definition name_content :: "properties \<Rightarrow> error + string option" where
  "name_content props =
     (case Name props of
        None \<Rightarrow> Inr None
      | Some p \<Rightarrow> (case tp_title p of
                     None \<Rightarrow> Inl TypeError
                   | Some items \<Rightarrow> Inr (first_content items)))"

definition product_content :: "properties \<Rightarrow> error + string option" where
  "product_content props =
     (case Product_Name props of
        None \<Rightarrow> Inr None
      | Some p \<Rightarrow> (case rp_rich_text p of
                     None \<Rightarrow> Inl TypeError
                   | Some items \<Rightarrow> Inr (first_content items)))"

definition amount_number :: "properties \<Rightarrow> jsnum option" where
  "amount_number props = (case Amount props of None \<Rightarrow> None | Some p \<Rightarrow> np_number p)"

definition date_start :: "properties \<Rightarrow> string option" where
  "date_start props =
     (case Order_Date props of
        None \<Rightarrow> None
      | Some p \<Rightarrow> (case dp_date p of None \<Rightarrow> None | Some d \<Rightarrow> start d))"

definition select_name :: "properties \<Rightarrow> string option" where
  "select_name props =
     (case Select props of
        None \<Rightarrow> None
      | Some p \<Rightarrow> (case sp_select p of None \<Rightarrow> None | Some s \<Rightarrow> sel_name s))"

text \<open>The first five statements of the loop body of the fetch handler.\<close>

definition normalize :: "page \<Rightarrow> error + sale" where
  "normalize pg =
     (case page_properties pg of
        None \<Rightarrow> Inl TypeError
      | Some props \<Rightarrow>
          (case name_content props of
             Inl e \<Rightarrow> Inl e
           | Inr c \<Rightarrow>
               (case product_content props of
                  Inl e \<Rightarrow> Inl e
                | Inr p \<Rightarrow>
                    Inr \<lparr> amount = or_num (amount_number props) (Num 0),
                          customerName = or_str c ''Unknown'',
                          productName = or_str p ''Unknown'',
                          date = or_null (date_start props),
                          paymentMethod = or_str (select_name props) ''Unknown'' \<rparr>)))"

section \<open>What the JavaScript runtime supplies\<close>

text \<open>
  The handlers call library functions whose results depend on the locale, the time zone
  and the random number generator of the process. They are parameters of the model:
  \<^item> \<open>monthLabel d\<close> is \<open>new Date(d).toLocaleString("default", {month: "short", year: "numeric"})\<close>;
  \<^item> \<open>currencyPHP n\<close> is \<open>n.toLocaleString("en-PH", {style: "currency", currency: "PHP"})\<close>;
  \<^item> \<open>shortDate d\<close> is \<open>new Date(d).toLocaleDateString("en-PH", {year: "numeric", month: "short", day: "numeric"})\<close>;
  \<^item> \<open>random k\<close> is the value of the \<open>k\<close>-th call of \<open>Math.random()\<close>;
  \<^item> \<open>parseFloat v\<close> is \<open>parseFloat(v)\<close>.
\<close>

record runtime =
  monthLabel :: "string \<Rightarrow> string"
  currencyPHP :: "jsnum \<Rightarrow> string"
  shortDate :: "string \<Rightarrow> string"
  random :: "nat \<Rightarrow> rat"
  parseFloat :: "json option \<Rightarrow> jsnum"

definition digit_char :: "nat \<Rightarrow> char" where
  "digit_char d = ''0123456789abcdef'' ! d"

text \<open>
  \<open>n.toString(b)\<close> at a natural number, for a radix from 2 to 16 (the callers pass 10
  and 16; JavaScript throws below 2).
\<close>

function toString_radix :: "nat \<Rightarrow> nat \<Rightarrow> string" where
  "toString_radix b n =
     (if n < b then [digit_char n]
      else if b < 2 then []
      else toString_radix b (n div b) @ [digit_char (n mod b)])"
  by pat_completeness auto
termination
  by (relation "measure (\<lambda>(b, n). n)") auto

declare toString_radix.simps [simp del]

definition padStart :: "nat \<Rightarrow> char \<Rightarrow> string \<Rightarrow> string" where
  "padStart n c s = replicate (n - length s) c @ s"

section \<open>The aggregation of the fetch handler\<close>

record monthly_bucket =
  mb_name :: string
  mb_revenue :: jsnum
  mb_orders :: nat
  mb_customers :: nat

record product_bucket =
  pb_name :: string
  pb_value :: jsnum
  pb_color :: string

record order_entry =
  oe_id :: string
  oe_customer :: string
  oe_amount :: string
  oe_product :: string
  oe_date :: string
  oe_paymentMethod :: string
  oe_status :: string

text \<open>
  The three arrays of the handler, and the number of calls of \<open>Math.random()\<close> made
  so far.
\<close>

record agg =
  monthly :: "monthly_bucket list"
  products :: "product_bucket list"
  orders :: "order_entry list"
  draws :: nat

definition agg_init :: agg where
  "agg_init = \<lparr> monthly = [], products = [], orders = [], draws = 0 \<rparr>"

text \<open>
  \<open>xs.find(P)\<close> returns the first element that satisfies \<open>P\<close>, and the handler then
  assigns to the fields of that object: the first match changes, in place.
\<close>

fun map_first :: "('a \<Rightarrow> bool) \<Rightarrow> ('a \<Rightarrow> 'a) \<Rightarrow> 'a list \<Rightarrow> 'a list" where
  "map_first P f [] = []"
| "map_first P f (x # xs) = (if P x then f x # xs else x # map_first P f xs)"

definition update_monthly :: "runtime \<Rightarrow> sale \<Rightarrow> monthly_bucket list \<Rightarrow> monthly_bucket list" where
  "update_monthly rt s ms =
     (case date s of
        None \<Rightarrow> ms
      | Some d \<Rightarrow>
          if d = [] then ms
          else
            let month = monthLabel rt d in
            (case find (\<lambda>m. mb_name m = month) ms of
               Some existing \<Rightarrow>
                 map_first (\<lambda>m. mb_name m = month)
                   (\<lambda>m. m\<lparr> mb_revenue := mb_revenue m + amount s,
                           mb_orders := mb_orders m + 1,
                           mb_customers := mb_customers m + 1 \<rparr>) ms
             | None \<Rightarrow>
                 ms @ [\<lparr> mb_name = month, mb_revenue = amount s,
                          mb_orders = 1, mb_customers = 1 \<rparr>]))"

definition random_color :: "runtime \<Rightarrow> nat \<Rightarrow> string" where
  \<comment> \<open>\<open>"#" + Math.floor(Math.random() * 16777215).toString(16).padStart(6, '0')\<close>\<close>
  "random_color rt k =
     CHR ''#'' # padStart 6 CHR ''0'' (toString_radix 16 (nat \<lfloor>random rt k * 16777215\<rfloor>))"

definition update_products :: "runtime \<Rightarrow> sale \<Rightarrow> nat \<Rightarrow> product_bucket list \<Rightarrow> product_bucket list" where
  "update_products rt s k ps =
     (case find (\<lambda>p. pb_name p = productName s) ps of
        Some existingProduct \<Rightarrow>
          map_first (\<lambda>p. pb_name p = productName s)
            (\<lambda>p. p\<lparr> pb_value := pb_value p + amount s \<rparr>) ps
      | None \<Rightarrow>
          ps @ [\<lparr> pb_name = productName s, pb_value = amount s,
                   pb_color = random_color rt k \<rparr>])"

definition product_draws :: "sale \<Rightarrow> product_bucket list \<Rightarrow> nat" where
  \<comment> \<open>a colour is drawn only when a product bucket is created\<close>
  "product_draws s ps =
     (case find (\<lambda>p. pb_name p = productName s) ps of Some _ \<Rightarrow> 0 | None \<Rightarrow> 1)"

definition sequence_id :: "nat \<Rightarrow> string" where
  \<comment> \<open>\<open>`#${(index+1).toString().padStart(4,"0")}`\<close>\<close>
  "sequence_id index = CHR ''#'' # padStart 4 CHR ''0'' (toString_radix 10 (index + 1))"

definition order_of :: "runtime \<Rightarrow> page \<Rightarrow> nat \<Rightarrow> sale \<Rightarrow> order_entry" where
  "order_of rt pg index s =
     \<lparr> oe_id = or_str (page_id pg) (sequence_id index),
       oe_customer = customerName s,
       oe_amount = currencyPHP rt (amount s),
       oe_product = productName s,
       oe_date = (case date s of
                    None \<Rightarrow> ''-''
                  | Some d \<Rightarrow> if d \<noteq> [] then shortDate rt d else ''-''),
       oe_paymentMethod = paymentMethod s,
       oe_status = ''completed'' \<rparr>"

definition update_orders :: "runtime \<Rightarrow> page \<Rightarrow> nat \<Rightarrow> sale \<Rightarrow> order_entry list \<Rightarrow> order_entry list" where
  "update_orders rt pg index s os =
     (if length os < 10 then os @ [order_of rt pg index s] else os)"

text \<open>The body of \<open>rows.forEach((page, index) => ...)\<close>; a throw leaves the loop.\<close>

definition row_step :: "runtime \<Rightarrow> page \<Rightarrow> nat \<Rightarrow> agg \<Rightarrow> error + agg" where
  "row_step rt pg index st =
     (case normalize pg of
        Inl e \<Rightarrow> Inl e
      | Inr s \<Rightarrow>
          Inr \<lparr> monthly = update_monthly rt s (monthly st),
                products = update_products rt s (draws st) (products st),
                orders = update_orders rt pg index s (orders st),
                draws = draws st + product_draws s (products st) \<rparr>)"

fun forEach_rows :: "runtime \<Rightarrow> page list \<Rightarrow> nat \<Rightarrow> agg \<Rightarrow> error + agg" where
  "forEach_rows rt [] index st = Inr st"
| "forEach_rows rt (pg # rows) index st =
     (case row_step rt pg index st of
        Inl e \<Rightarrow> Inl e
      | Inr st' \<Rightarrow> forEach_rows rt rows (index + 1) st')"

definition aggregate :: "runtime \<Rightarrow> page list \<Rightarrow> error + agg" where
  "aggregate rt rows = forEach_rows rt rows 0 agg_init"

text \<open>
  Normalizing every row, for stating what the loop computes: the loop itself normalizes
  row by row, and stops at the first row that throws.
\<close>

fun normalize_all :: "page list \<Rightarrow> error + sale list" where
  "normalize_all [] = Inr []"
| "normalize_all (pg # rows) =
     (case normalize pg of
        Inl e \<Rightarrow> Inl e
      | Inr s \<Rightarrow> (case normalize_all rows of Inl e \<Rightarrow> Inl e | Inr ss \<Rightarrow> Inr (s # ss)))"


section \<open>The fetch handler\<close>

text \<open>
  What \<open>axios\<close> rejects with: an error whose \<open>response\<close> is there when the external
  service answered with a failure status, and missing when no answer came. What a
  \<open>catch\<close> block receives is such an error or a \<open>TypeError\<close> thrown by the handler itself,
  which has no \<open>response\<close>.
\<close>

record error_response =
  er_status :: nat
  er_data :: "json option"

record axios_error =
  ae_message :: string
  ae_response :: "error_response option"

datatype thrown = Thrown error | Rejected axios_error

fun thrown_response :: "thrown \<Rightarrow> error_response option" where
  "thrown_response (Thrown e) = None"
| "thrown_response (Rejected err) = ae_response err"

definition response_data :: "thrown \<Rightarrow> json option" where
  \<comment> \<open>\<open>error.response?.data\<close>\<close>
  "response_data error = (case thrown_response error of None \<Rightarrow> None | Some r \<Rightarrow> er_data r)"

record 'b http_response =
  status :: nat
  body :: 'b

datatype fetch_body =
    FetchOk bool "monthly_bucket list" "product_bucket list" "order_entry list"
  | FetchFailed bool string "json option"

text \<open>
  The \<open>try\<close> block of \<open>GET /proxy/notion\<close>. The outcome of the query to the external
  service is a parameter: a rejection, or \<open>response.data.results\<close>, which is \<open>None\<close> when
  the answer has no such member (reading its \<open>length\<close> or calling \<open>forEach\<close> then throws).
\<close>

definition try_fetch :: "runtime \<Rightarrow> axios_error + page list option \<Rightarrow> thrown + agg" where
  "try_fetch rt upstream =
     (case upstream of
        Inl err \<Rightarrow> Inl (Rejected err)
      | Inr None \<Rightarrow> Inl (Thrown TypeError)
      | Inr (Some rows) \<Rightarrow>
          (case aggregate rt rows of Inl e \<Rightarrow> Inl (Thrown e) | Inr out \<Rightarrow> Inr out))"

definition get_proxy_notion :: "runtime \<Rightarrow> axios_error + page list option \<Rightarrow> fetch_body http_response" where
  "get_proxy_notion rt upstream =
     (case try_fetch rt upstream of
        Inr out \<Rightarrow>
          \<lparr> status = 200, body = FetchOk True (monthly out) (products out) (orders out) \<rparr>
      | Inl error \<Rightarrow>
          \<lparr> status = 500,
            body = FetchFailed False ''Failed to fetch data from Notion'' (response_data error) \<rparr>)"

text \<open>
  The fetch fails when the query is rejected, when the answer carries no rows, or when
  a row makes the normalization throw.
\<close>

fun fetch_fails :: "axios_error + page list option \<Rightarrow> bool" where
  "fetch_fails (Inl err) = True"
| "fetch_fails (Inr None) = True"
| "fetch_fails (Inr (Some rows)) = list_ex (\<lambda>pg. isl (normalize pg)) rows"

section \<open>The create handler\<close>

record notion_data =
  nd_Amount :: jsnum
  nd_Name :: "json option"
  nd_Product_Name :: "json option"
  nd_Order_Date :: "json option"
  nd_Select :: "json option"

datatype create_body =
    Created string string "json option"
  | CreateError string "json option" "json option"

definition or_json :: "json option \<Rightarrow> json \<Rightarrow> json option" where
  \<comment> \<open>\<open>x || d\<close> at a JSON value\<close>
  "or_json x d = (if truthy x then x else Some d)"

definition create_failed :: "thrown \<Rightarrow> create_body http_response" where
  \<comment> \<open>the \<open>catch\<close> block of \<open>POST /proxy/notion\<close>\<close>
  "create_failed error =
     \<lparr> status = (case thrown_response error of
                   None \<Rightarrow> 500
                 | Some r \<Rightarrow> if er_status r \<noteq> 0 then er_status r else 500),
       body = CreateError ''error''
                (or_json (opt_member (response_data error) ''message'')
                   (JStr ''Failed to create page in Notion''))
                (response_data error) \<rparr>"

text \<open>
  \<open>POST /proxy/notion\<close>. \<open>req.body\<close> is the object that \<open>express.json()\<close> parsed, given
  by its members, or \<open>undefined\<close> (\<open>None\<close>) when no body was parsed; destructuring
  \<open>undefined\<close> throws inside the \<open>try\<close>. The call to the external service is a
  parameter: it rejects or gives \<open>response.data\<close>. The result is the response together
  with the outbound calls made, in order.
\<close>

definition post_proxy_notion ::
  "runtime \<Rightarrow> (notion_data \<Rightarrow> axios_error + json) \<Rightarrow> (string \<rightharpoonup> json) option \<Rightarrow>
     create_body http_response \<times> notion_data list" where
  "post_proxy_notion rt create_page req_body =
     (case req_body of
        None \<Rightarrow> (create_failed (Thrown TypeError), [])
      | Some members \<Rightarrow>
          let amount = members ''amount'';
              customerName = members ''customerName'';
              productName = members ''productName'';
              date = members ''date'';
              paymentMethod = members ''paymentMethod''
          in
            if \<not> truthy amount \<or> \<not> truthy customerName \<or> \<not> truthy productName
               \<or> \<not> truthy date \<or> \<not> truthy paymentMethod
            then (\<lparr> status = 400,
                     body = CreateError ''error'' (Some (JStr ''Missing required fields'')) None \<rparr>,
                  [])
            else
              let notionData = \<lparr> nd_Amount = parseFloat rt amount,
                                   nd_Name = customerName,
                                   nd_Product_Name = productName,
                                   nd_Order_Date = date,
                                   nd_Select = paymentMethod \<rparr>
              in
                (case create_page notionData of
                   Inl err \<Rightarrow> (create_failed (Rejected err), [notionData])
                 | Inr data \<Rightarrow>
                     (case member data ''id'' of
                        Inl e \<Rightarrow> (create_failed (Thrown e), [notionData])
                      | Inr pageId \<Rightarrow>
                          (\<lparr> status = 200,
                             body = Created ''success'' ''Data successfully saved to Notion''
                                      pageId \<rparr>,
                           [notionData]))))"

section \<open>The optimistic update of the dashboard\<close>

record form_data =
  f_amount :: string
  f_customerName :: string
  f_productName :: string
  f_date :: string
  f_paymentMethod :: string

record dashboard =
  monthlyData :: "monthly_bucket list"
  productData :: "product_bucket list"
  recentOrders :: "order_entry list"

definition colors :: "string list" where
  "colors = [''#3B82F6'', ''#10B981'', ''#F59E0B'', ''#EF4444'', ''#8B5CF6'', ''#EC4899'']"

text \<open>The three state updates of \<open>handleFormSubmit\<close>.\<close>

definition set_monthlyData ::
  "string \<Rightarrow> jsnum \<Rightarrow> string \<Rightarrow> order_entry list \<Rightarrow> monthly_bucket list \<Rightarrow> monthly_bucket list" where
  "set_monthlyData month amountNum customer recent prev =
     (case find (\<lambda>item. mb_name item = month) prev of
        Some existingMonth \<Rightarrow>
          let existingCustomer = list_ex (\<lambda>order. oe_customer order = customer) recent in
          map (\<lambda>item.
                 if mb_name item = month
                 then item\<lparr> mb_revenue := mb_revenue item + amountNum,
                            mb_orders := mb_orders item + 1,
                            mb_customers := (if existingCustomer then mb_customers item
                                             else mb_customers item + 1) \<rparr>
                 else item) prev
      | None \<Rightarrow>
          prev @ [\<lparr> mb_name = month, mb_revenue = amountNum, mb_orders = 1, mb_customers = 1 \<rparr>])"

definition set_productData :: "string \<Rightarrow> jsnum \<Rightarrow> product_bucket list \<Rightarrow> product_bucket list" where
  "set_productData product amountNum prev =
     (case find (\<lambda>item. pb_name item = product) prev of
        Some existingProduct \<Rightarrow>
          map (\<lambda>item.
                 if pb_name item = product
                 then item\<lparr> pb_value := pb_value item + amountNum \<rparr>
                 else item) prev
      | None \<Rightarrow>
          let newColor = colors ! (length prev mod length colors) in
          prev @ [\<lparr> pb_name = product, pb_value = amountNum, pb_color = newColor \<rparr>])"

definition set_recentOrders ::
  "runtime \<Rightarrow> nat \<Rightarrow> form_data \<Rightarrow> jsnum \<Rightarrow> order_entry list \<Rightarrow> order_entry list" where
  "set_recentOrders rt now form amountNum prev =
     \<lparr> oe_id = ''new-'' @ toString_radix 10 now,
       oe_customer = f_customerName form,
       oe_amount = currencyPHP rt amountNum,
       oe_product = f_productName form,
       oe_date = shortDate rt (f_date form),
       oe_paymentMethod = f_paymentMethod form,
       oe_status = ''completed'' \<rparr> # take 9 prev"

text \<open>\<open>now\<close> is the value of \<open>Date.now()\<close>.\<close>

definition handleFormSubmit :: "runtime \<Rightarrow> nat \<Rightarrow> form_data \<Rightarrow> dashboard \<Rightarrow> dashboard" where
  "handleFormSubmit rt now form st =
     (let amountNum = parseFloat rt (Some (JStr (f_amount form)));
          month = monthLabel rt (f_date form)
      in \<lparr> monthlyData =
             set_monthlyData month amountNum (f_customerName form) (recentOrders st)
               (monthlyData st),
           productData = set_productData (f_productName form) amountNum (productData st),
           recentOrders = set_recentOrders rt now form amountNum (recentOrders st) \<rparr>)"

text \<open>
  The sale that a submitted form stands for, as the server-side update rule takes it:
  the five fields, with the amount parsed as the dashboard parses it.
\<close>

definition sale_of_form :: "runtime \<Rightarrow> form_data \<Rightarrow> sale" where
  "sale_of_form rt form =
     \<lparr> amount = parseFloat rt (Some (JStr (f_amount form))),
       customerName = f_customerName form,
       productName = f_productName form,
       date = Some (f_date form),
       paymentMethod = f_paymentMethod form \<rparr>"

section \<open>Reading the buckets by name\<close>

definition orders_of :: "monthly_bucket list \<Rightarrow> string \<Rightarrow> nat" where
  "orders_of ms n = (case find (\<lambda>m. mb_name m = n) ms of None \<Rightarrow> 0 | Some m \<Rightarrow> mb_orders m)"





definition in_month :: "runtime \<Rightarrow> string \<Rightarrow> sale \<Rightarrow> bool" where
  \<comment> \<open>the sale has a date, and the label of its month is \<open>n\<close>\<close>
  "in_month rt n s = (case date s of None \<Rightarrow> False | Some d \<Rightarrow> monthLabel rt d = n)"

text \<open>
  The order entries that the loop derives from rows \<open>i, i + 1, ...\<close> of the input, one
  for each row.
\<close>

fun entries_from :: "runtime \<Rightarrow> nat \<Rightarrow> page list \<Rightarrow> sale list \<Rightarrow> order_entry list" where
  "entries_from rt i (pg # rows) (s # sales) = order_of rt pg i s # entries_from rt (i + 1) rows sales"
| "entries_from rt i _ _ = []"

section \<open>A runtime for evaluating examples\<close>

text \<open>
  Every theorem below holds for every runtime. To evaluate the model on examples, here
  is one runtime: the month label of an ISO date \<open>YYYY-MM-DD\<close> with English
  abbreviations, \<open>parseFloat\<close> on JSON numbers and on non-empty strings of decimal
  digits (the only arguments in the examples; everything else goes to \<open>NaN\<close> here), and
  fixed stand-ins for the two display formats and the random numbers.
\<close>

definition month_abbr :: "string \<Rightarrow> string" where
  "month_abbr mm =
     (case map_of
        [(''01'', ''Jan''), (''02'', ''Feb''), (''03'', ''Mar''), (''04'', ''Apr''),
         (''05'', ''May''), (''06'', ''Jun''), (''07'', ''Jul''), (''08'', ''Aug''),
         (''09'', ''Sep''), (''10'', ''Oct''), (''11'', ''Nov''), (''12'', ''Dec'')] mm of
        Some a \<Rightarrow> a
      | None \<Rightarrow> ''Invalid Date'')"

definition iso_month_label :: "string \<Rightarrow> string" where
  "iso_month_label d = month_abbr (take 2 (drop 5 d)) @ '' '' @ take 4 d"

definition digit_value :: "char \<Rightarrow> nat option" where
  "digit_value c =
     map_of [(CHR ''0'', 0), (CHR ''1'', 1), (CHR ''2'', 2), (CHR ''3'', 3), (CHR ''4'', 4),
             (CHR ''5'', 5), (CHR ''6'', 6), (CHR ''7'', 7), (CHR ''8'', 8), (CHR ''9'', 9)] c"

fun digits_value :: "nat \<Rightarrow> string \<Rightarrow> nat option" where
  "digits_value acc [] = Some acc"
| "digits_value acc (c # cs) =
     (case digit_value c of None \<Rightarrow> None | Some d \<Rightarrow> digits_value (10 * acc + d) cs)"

fun digits_parseFloat :: "json option \<Rightarrow> jsnum" where
  "digits_parseFloat (Some (JNum r)) = Num r"
| "digits_parseFloat (Some (JStr s)) =
     (if s = [] then NaN
      else (case digits_value 0 s of None \<Rightarrow> NaN | Some n \<Rightarrow> round64 (of_nat n)))"
| "digits_parseFloat _ = NaN"

definition example_runtime :: runtime where
  "example_runtime =
     \<lparr> monthLabel = iso_month_label,
       currencyPHP = (\<lambda>n. ''PHP''),
       shortDate = (\<lambda>d. d),
       random = (\<lambda>k. 0),
       parseFloat = digits_parseFloat \<rparr>"

text \<open>
  A page with all five properties in place, its amount read from the decimal \<open>a\<close> of the
  JSON text, and four rows; the last has no date.
\<close>

definition example_page ::
  "string option \<Rightarrow> rat \<Rightarrow> string \<Rightarrow> string \<Rightarrow> string option \<Rightarrow> string \<Rightarrow> page" where
  "example_page i a c p d m =
     \<lparr> page_id = i,
       page_properties = Some
         \<lparr> Amount = Some \<lparr> np_number = Some (round64 a) \<rparr>,
           Name = Some \<lparr> tp_title = Some [\<lparr> item_text = Some \<lparr> content = Some c \<rparr> \<rparr>] \<rparr>,
           Product_Name =
             Some \<lparr> rp_rich_text = Some [\<lparr> item_text = Some \<lparr> content = Some p \<rparr> \<rparr>] \<rparr>,
           Order_Date = Some \<lparr> dp_date = (case d of None \<Rightarrow> None | Some x \<Rightarrow> Some \<lparr> start = Some x \<rparr>) \<rparr>,
           Select = Some \<lparr> sp_select = Some \<lparr> sel_name = Some m \<rparr> \<rparr> \<rparr> \<rparr>"

definition example_rows :: "page list" where
  "example_rows =
     [example_page (Some ''p1'') 100 ''Ann'' ''Widget'' (Some ''2025-01-05'') ''Cash'',
      example_page None 50 ''Ben'' ''Widget'' (Some ''2025-01-20'') ''GCash'',
      example_page (Some ''p3'') 75 ''Ann'' ''Gadget'' (Some ''2025-02-01'') ''Cash'',
      example_page None 20 ''Cy'' ''Gadget'' None ''Cash'']"

definition example_sales :: "sale list" where
  "example_sales =
     [\<lparr> amount = Num 100, customerName = ''Ann'', productName = ''Widget'',
        date = Some ''2025-01-05'', paymentMethod = ''Cash'' \<rparr>,
      \<lparr> amount = Num 50, customerName = ''Ben'', productName = ''Widget'',
        date = Some ''2025-01-20'', paymentMethod = ''GCash'' \<rparr>,
      \<lparr> amount = Num 75, customerName = ''Ann'', productName = ''Gadget'',
        date = Some ''2025-02-01'', paymentMethod = ''Cash'' \<rparr>,
      \<lparr> amount = Num 20, customerName = ''Cy'', productName = ''Gadget'',
        date = None, paymentMethod = ''Cash'' \<rparr>]"



text \<open>
  A page whose \<open>Name\<close> property is of another type than title, so that it has no
  \<open>title\<close> array, and a page whose four texts are all the empty string.
\<close>

definition untitled_page :: page where
  "untitled_page =
     \<lparr> page_id = Some ''p9'',
       page_properties = Some
         \<lparr> Amount = Some \<lparr> np_number = Some (Num 10) \<rparr>,
           Name = Some \<lparr> tp_title = None \<rparr>,
           Product_Name = None,
           Order_Date = None,
           Select = None \<rparr> \<rparr>"

definition blank_properties :: properties where
  "blank_properties =
     \<lparr> Amount = Some \<lparr> np_number = Some (Num 0) \<rparr>,
       Name = Some \<lparr> tp_title = Some [\<lparr> item_text = Some \<lparr> content = Some [] \<rparr> \<rparr>] \<rparr>,
       Product_Name =
         Some \<lparr> rp_rich_text = Some [\<lparr> item_text = Some \<lparr> content = Some [] \<rparr> \<rparr>] \<rparr>,
       Order_Date = Some \<lparr> dp_date = Some \<lparr> start = Some [] \<rparr> \<rparr>,
       Select = Some \<lparr> sp_select = Some \<lparr> sel_name = Some [] \<rparr> \<rparr> \<rparr>"

definition blank_page :: page where
  "blank_page = \<lparr> page_id = Some ''p0'', page_properties = Some blank_properties \<rparr>"

text \<open>A rejection of the query by the external service, with status 404.\<close>

definition not_found :: axios_error where
  "not_found =
     \<lparr> ae_message = ''Request failed with status code 404'',
       ae_response = Some
         \<lparr> er_status = 404,
           er_data = Some (JObj [(''message'', JStr ''Could not find database'')]) \<rparr> \<rparr>"

text \<open>
  Create requests: one without a date, one with the number \<open>0\<close> as amount, one with the
  string \<open>"0"\<close> as amount; and an external service that accepts every page.
\<close>

definition body_without_date :: "string \<rightharpoonup> json" where
  "body_without_date =
     map_of [(''amount'', JStr ''50''), (''customerName'', JStr ''Ann''),
             (''productName'', JStr ''Widget''), (''paymentMethod'', JStr ''Cash'')]"

definition body_number_zero :: "string \<rightharpoonup> json" where
  "body_number_zero =
     map_of [(''amount'', JNum 0), (''customerName'', JStr ''Ann''),
             (''productName'', JStr ''Widget''), (''date'', JStr ''2025-01-20''),
             (''paymentMethod'', JStr ''Cash'')]"

definition body_string_zero :: "string \<rightharpoonup> json" where
  "body_string_zero =
     map_of [(''amount'', JStr ''0''), (''customerName'', JStr ''Ann''),
             (''productName'', JStr ''Widget''), (''date'', JStr ''2025-01-20''),
             (''paymentMethod'', JStr ''Cash'')]"

definition accepting_service :: "notion_data \<Rightarrow> axios_error + json" where
  "accepting_service d = Inr (JObj [(''id'', JStr ''page-1'')])"

text \<open>
  A dashboard that shows one sale to Ann in January 2025, and the form of a second
  sale to Ann in the same month.
\<close>

definition example_dashboard :: dashboard where
  "example_dashboard =
     \<lparr> monthlyData =
         [\<lparr> mb_name = ''Jan 2025'', mb_revenue = Num 100, mb_orders = 1, mb_customers = 1 \<rparr>],
       productData =
         [\<lparr> pb_name = ''Widget'', pb_value = Num 100, pb_color = ''#3B82F6'' \<rparr>],
       recentOrders =
         [\<lparr> oe_id = ''p1'', oe_customer = ''Ann'', oe_amount = ''PHP'', oe_product = ''Widget'',
            oe_date = ''2025-01-05'', oe_paymentMethod = ''Cash'', oe_status = ''completed'' \<rparr>] \<rparr>"

definition example_form :: form_data where
  "example_form =
     \<lparr> f_amount = ''50'', f_customerName = ''Ann'', f_productName = ''Widget'',
       f_date = ''2025-01-20'', f_paymentMethod = ''Cash'' \<rparr>"

section \<open>Binary64 arithmetic\<close>

lemma pow2_powi: "pow2 e = 2 powi e"
  by (simp add: pow2_def power_int_def power_one_over [symmetric] inverse_eq_divide)

lemma pow2_pos [simp]: "0 < pow2 e"
  by (simp add: pow2_powi)

lemma pow2_mono: "e \<le> e' \<Longrightarrow> pow2 e \<le> pow2 e'"
  by (simp add: pow2_powi power_int_increasing)

lemma pow2_strict_mono: "e < e' \<Longrightarrow> pow2 e < pow2 e'"
  by (simp add: pow2_powi power_int_strict_increasing)

lemma pow2_nat: "0 \<le> e \<Longrightarrow> pow2 e = 2 ^ nat e"
  by (simp add: pow2_def)

lemma pow2_neg: "e \<le> 0 \<Longrightarrow> pow2 e = 1 / 2 ^ nat (- e)"
  by (cases "e = 0") (simp_all add: pow2_def)

lemma binade_bounds:
  assumes "0 < a"
  shows "pow2 (binade a) \<le> a \<and> a < pow2 (binade a + 1)"
proof (cases "1 \<le> a")
  case True
  define n where "n = \<lfloor>a\<rfloor>"
  from True have n: "0 < n" by (simp add: n_def)
  from bitlen_bounds [OF n] have lo: "2 ^ nat (bitlen n - 1) \<le> n" and hi: "n < 2 ^ nat (bitlen n)"
    by simp_all
  from n have b1: "1 \<le> bitlen n" by (simp add: bitlen_alt_def)
  have b: "binade a = bitlen n - 1" using True by (simp add: binade_def n_def)
  have "(2::rat) ^ nat (bitlen n - 1) \<le> of_int n" using lo by simp
  also have "\<dots> \<le> a" by (simp add: n_def)
  finally have 1: "pow2 (binade a) \<le> a" using b1 by (simp add: b pow2_nat)
  from hi have "n + 1 \<le> 2 ^ nat (bitlen n)" by simp
  then have "(of_int (n + 1) :: rat) \<le> 2 ^ nat (bitlen n)" by (simp del: of_int_add)
  moreover have "a < of_int (n + 1)" unfolding n_def by simp linarith
  ultimately have "a < 2 ^ nat (bitlen n)" by linarith
  then have 2: "a < pow2 (binade a + 1)" using b1 by (simp add: b pow2_nat)
  from 1 2 show ?thesis ..
next
  case False
  define y where "y = 1 / a"
  define c where "c = \<lceil>y\<rceil>"
  from False assms have y1: "1 < y" by (simp add: y_def)
  then have c2: "2 \<le> c" unfolding c_def by linarith
  then have c1: "0 < c - 1" by simp
  define k where "k = bitlen (c - 1)"
  from bitlen_bounds [OF c1] have lo: "2 ^ nat (k - 1) \<le> c - 1" and hi: "c - 1 < 2 ^ nat k"
    by (simp_all add: k_def)
  from c1 have k1: "1 \<le> k" by (simp add: k_def bitlen_alt_def)
  have b: "binade a = - k" using False by (simp add: binade_def k_def c_def y_def)
  from hi have "c \<le> 2 ^ nat k" by simp
  then have "(of_int c :: rat) \<le> 2 ^ nat k" by simp
  moreover have "y \<le> of_int c" by (simp add: c_def)
  ultimately have "y \<le> 2 ^ nat k" by linarith
  then have "1 / 2 ^ nat k \<le> a" using assms by (simp add: y_def field_simps)
  then have 1: "pow2 (binade a) \<le> a" using k1 by (simp add: b pow2_neg)
  have "(2::rat) ^ nat (k - 1) \<le> of_int (c - 1)" using lo by (simp del: of_int_diff)
  moreover have "of_int (c - 1) < y" unfolding c_def by linarith
  ultimately have "2 ^ nat (k - 1) < y" by linarith
  then have "a < 1 / 2 ^ nat (k - 1)" using assms by (simp add: y_def field_simps)
  moreover have "pow2 (- k + 1) = 1 / 2 ^ nat (k - 1)" using k1 by (simp add: pow2_neg)
  ultimately have 2: "a < pow2 (binade a + 1)" by (simp add: b)
  from 1 2 show ?thesis ..
qed

lemma binade_unique:
  assumes "pow2 b \<le> a" and "a < pow2 (b + 1)"
  shows "binade a = b"
proof -
  have a: "0 < a" using assms(1) pow2_pos [of b] by linarith
  note bb = binade_bounds [OF a]
  have "\<not> binade a < b"
  proof
    assume "binade a < b"
    then have "pow2 (binade a + 1) \<le> pow2 b" by (intro pow2_mono) simp
    with bb assms show False by linarith
  qed
  moreover have "\<not> b < binade a"
  proof
    assume "b < binade a"
    then have "pow2 (b + 1) \<le> pow2 (binade a)" by (intro pow2_mono) simp
    with bb assms show False by linarith
  qed
  ultimately show ?thesis by simp
qed

lemma round_half_even_nearest:
  assumes "\<bar>y - of_int m\<bar> < 1 / 2"
  shows "round_half_even y = m"
proof (cases "of_int m \<le> y")
  case True
  with assms have "\<lfloor>y\<rfloor> = m" by (intro floor_unique) linarith+
  with assms True show ?thesis by (simp add: round_half_even_def Let_def)
next
  case False
  with assms have "of_int (m - 1) \<le> y" and "y < of_int (m - 1) + 1" by auto
  then have f: "\<lfloor>y\<rfloor> = m - 1" by (rule floor_unique)
  from assms False have "1 / 2 < y - of_int (m - 1)" by simp
  with f show ?thesis by (simp add: round_half_even_def Let_def)
qed

lemma round64_nearest:
  assumes "x \<noteq> 0" and "pow2 b \<le> \<bar>x\<bar>" and "\<bar>x\<bar> < pow2 (b + 1)"
    and "e = max (b - 52) (- 1074)"
    and "\<bar>\<bar>x\<bar> / pow2 e - of_int m\<bar> < 1 / 2"
    and "of_int m * pow2 e < pow2 1024"
  shows "round64 x = Num (if 0 < x then of_int m * pow2 e else - (of_int m * pow2 e))"
proof -
  have b: "binade \<bar>x\<bar> = b" by (rule binade_unique [OF assms(2,3)])
  have m: "round_half_even (\<bar>x\<bar> / pow2 (max (b - 52) (- 1074))) = m"
    using assms(5) unfolding assms(4) by (rule round_half_even_nearest)
  show ?thesis
    using assms(1,6) unfolding assms(4) round64_def Let_def b m
    by simp
qed

lemma round64_of_int:
  assumes "\<bar>n\<bar> \<le> 2 ^ 53"
  shows "round64 (of_int n) = Num (of_int n)"
proof (cases "n = 0")
  case True
  then show ?thesis by (simp add: round64_def)
next
  case False
  define a :: rat where "a = \<bar>of_int n\<bar>"
  have a1: "1 \<le> a"
  proof -
    from False have "1 \<le> \<bar>n\<bar>" by simp
    then have "(1 :: rat) \<le> of_int \<bar>n\<bar>" by (simp del: of_int_abs)
    then show ?thesis by (simp add: a_def)
  qed
  have a53: "a \<le> 2 ^ 53"
  proof -
    have "(of_int \<bar>n\<bar> :: rat) \<le> 2 ^ 53" using assms by (simp del: of_int_abs)
    then show ?thesis by (simp add: a_def)
  qed
  define b where "b = binade a"
  from a1 have a0: "0 < a" by simp
  from binade_bounds [OF a0] have lo: "pow2 b \<le> a" and hi: "a < pow2 (b + 1)"
    by (simp_all add: b_def)
  have b0: "0 \<le> b"
  proof (rule ccontr)
    assume "\<not> 0 \<le> b"
    then have "pow2 (b + 1) \<le> pow2 0" by (intro pow2_mono) simp
    with hi a1 show False by (simp add: pow2_def)
  qed
  have b53: "b \<le> 53"
  proof (rule ccontr)
    assume "\<not> b \<le> 53"
    then have "pow2 54 \<le> pow2 b" by (intro pow2_mono) simp
    with lo a53 show False by (simp add: pow2_def)
  qed
  define m :: int where "m = (if b \<le> 52 then \<bar>n\<bar> * 2 ^ nat (52 - b) else 2 ^ 52)"
  have scaled: "a / pow2 (b - 52) = of_int m"
  proof (cases "b \<le> 52")
    case True
    then show ?thesis by (simp add: pow2_neg m_def a_def)
  next
    case False
    with b53 have b: "b = 53" by simp
    with lo a53 have "a = 2 ^ 53" by (simp add: pow2_def)
    with b show ?thesis by (simp add: m_def pow2_def)
  qed
  then have unscaled: "of_int m * pow2 (b - 52) = a"
    using pow2_pos [of "b - 52"] by (simp add: field_simps)
  have e: "b - 52 = max (b - 52) (- 1074)" using b0 by simp
  have "a < pow2 1024"
  proof -
    have "(2::rat) ^ 53 < 2 ^ 1024" by (intro power_strict_increasing) simp_all
    with a53 show ?thesis by (simp add: pow2_def)
  qed
  with unscaled have small: "of_int m * pow2 (b - 52) < pow2 1024" by simp
  have x0: "(of_int n :: rat) \<noteq> 0" using False by simp
  have "round64 (of_int n) =
        Num (if 0 < (of_int n :: rat) then of_int m * pow2 (b - 52) else - (of_int m * pow2 (b - 52)))"
    by (rule round64_nearest [OF x0 lo [unfolded a_def] hi [unfolded a_def] e _ small])
       (simp add: scaled [unfolded a_def])
  then show ?thesis unfolding unscaled a_def by (auto simp: abs_if split: if_splits)
qed



lemma round64_numeral:
  assumes "numeral k \<le> (2::int) ^ 53"
  shows "round64 (numeral k) = Num (numeral k)"
  using round64_of_int [of "numeral k"] assms by simp



















section \<open>Facts about updating the first match\<close>

lemma find_map_first_same:
  assumes "\<And>x. key (f x) = key x"
  shows "find (\<lambda>x. key x = n) (map_first (\<lambda>x. key x = n) f xs) =
         map_option f (find (\<lambda>x. key x = n) xs)"
  by (induction xs) (auto simp: assms)

lemma find_map_first_other:
  assumes "\<And>x. key (f x) = key x" and "n \<noteq> m"
  shows "find (\<lambda>x. key x = n) (map_first (\<lambda>x. key x = m) f xs) = find (\<lambda>x. key x = n) xs"
  using assms(2) by (induction xs) (auto simp: assms(1))

lemma map_key_map_first:
  assumes "\<And>x. key (f x) = key x"
  shows "map key (map_first P f xs) = map key xs"
  by (induction xs) (auto simp: assms)

lemma set_map_first: "set (map_first P f xs) \<subseteq> set xs \<union> f ` set xs"
  by (induction xs) auto

lemma find_None_key: "find (\<lambda>x. key x = n) xs = None \<longleftrightarrow> n \<notin> set (map key xs)"
  by (induction xs) auto

lemma find_distinct_member:
  "distinct (map key xs) \<Longrightarrow> b \<in> set xs \<Longrightarrow> find (\<lambda>x. key x = key b) xs = Some b"
  by (induction xs) (auto simp: rev_image_eqI)

lemma find_snoc:
  "find P (xs @ [y]) =
     (case find P xs of Some x \<Rightarrow> Some x | None \<Rightarrow> if P y then Some y else None)"
  by (induction xs) auto

lemma map_first_distinct_eq_map:
  "distinct (map key xs) \<Longrightarrow>
   map_first (\<lambda>x. key x = n) f xs = map (\<lambda>x. if key x = n then f x else x) xs"
proof (induction xs)
  case Nil
  then show ?case by simp
next
  case (Cons x xs)
  show ?case
  proof (cases "key x = n")
    case True
    with Cons.prems have "\<forall>y\<in>set xs. key y \<noteq> n" by (auto simp: image_iff)
    then have "map (\<lambda>x. if key x = n then f x else x) xs = xs"
      by (simp add: map_idI)
    with True show ?thesis by simp
  next
    case False
    with Cons show ?thesis by simp
  qed
qed


lemma accumulate_append: "accumulate acc (xs @ ys) = accumulate (accumulate acc xs) ys"
  by (induction acc xs rule: accumulate.induct) simp_all


section \<open>Normalized sales\<close>

lemma normalize_date_nonempty: "normalize pg = Inr s \<Longrightarrow> date s \<noteq> Some []"
  by (auto simp: normalize_def or_null_def truthy_str_def split: option.splits sum.splits if_splits)

lemma normalize_all_length: "normalize_all rows = Inr sales \<Longrightarrow> length sales = length rows"
  by (induction rows arbitrary: sales) (auto split: sum.splits)

lemma normalize_all_isl: "isl (normalize_all rows) \<longleftrightarrow> list_ex (\<lambda>pg. isl (normalize pg)) rows"
  by (induction rows) (auto split: sum.splits)

section \<open>One turn of the loop\<close>

lemma forEach_Cons:
  assumes "normalize pg = Inr s"
  shows "forEach_rows rt (pg # rows) i st =
         forEach_rows rt rows (i + 1)
           \<lparr> monthly = update_monthly rt s (monthly st),
             products = update_products rt s (draws st) (products st),
             orders = update_orders rt pg i s (orders st),
             draws = draws st + product_draws s (products st) \<rparr>"
  by (simp add: row_step_def assms)

lemma normalize_all_Cons:
  assumes "normalize_all (pg # rows) = Inr sales"
  obtains s ss where "normalize pg = Inr s" and "normalize_all rows = Inr ss" and "sales = s # ss"
  using assms by (auto split: sum.splits)

lemma forEach_succeeds:
  "normalize_all rows = Inr sales \<Longrightarrow> \<exists>out. forEach_rows rt rows i st = Inr out"
proof (induction rows arbitrary: i st sales)
  case Nil
  then show ?case by simp
next
  case (Cons pg rows)
  from Cons.prems obtain s ss where s: "normalize pg = Inr s" and ss: "normalize_all rows = Inr ss"
    by (rule normalize_all_Cons)
  show ?case
    unfolding forEach_Cons [OF s] by (rule Cons.IH [OF ss])
qed

lemma forEach_fails:
  "normalize_all rows = Inl e \<Longrightarrow> forEach_rows rt rows i st = Inl e"
  by (induction rows arbitrary: i st) (auto simp: row_step_def split: sum.splits)

section \<open>Monthly buckets\<close>






lemma update_monthly_customers:
  assumes "\<forall>b\<in>set ms. mb_customers b = mb_orders b"
  shows "\<forall>b\<in>set (update_monthly rt s ms). mb_customers b = mb_orders b"
proof -
  have "\<forall>b\<in>set (map_first P (\<lambda>m. m\<lparr> mb_revenue := mb_revenue m + a,
           mb_orders := mb_orders m + 1, mb_customers := mb_customers m + 1 \<rparr>) ms).
          mb_customers b = mb_orders b" for P a
    using assms set_map_first [of P _ ms] by fastforce
  with assms show ?thesis
    by (auto simp: update_monthly_def Let_def split: option.splits)
qed

lemma update_monthly_distinct:
  "distinct (map mb_name ms) \<Longrightarrow> distinct (map mb_name (update_monthly rt s ms))"
  by (auto simp: update_monthly_def Let_def map_key_map_first [where key = mb_name] find_None_key
      split: option.splits)

lemma update_monthly_orders_of:
  assumes "date s \<noteq> Some []"
  shows "orders_of (update_monthly rt s ms) n =
         orders_of ms n + (if in_month rt n s then 1 else 0)"
proof (cases "date s")
  case None
  then show ?thesis by (simp add: update_monthly_def in_month_def)
next
  case (Some d)
  with assms have d: "d \<noteq> []" by simp
  show ?thesis
  proof (cases "find (\<lambda>m. mb_name m = monthLabel rt d) ms")
    case None
    with Some d show ?thesis
      by (auto simp: orders_of_def update_monthly_def in_month_def find_snoc split: option.splits)
  next
    case found: (Some b)
    show ?thesis
    proof (cases "monthLabel rt d = n")
      case True
      with Some d found show ?thesis
        by (simp add: orders_of_def update_monthly_def in_month_def
            find_map_first_same [where key = mb_name])
    next
      case False
      then have "n \<noteq> monthLabel rt d" by simp
      with Some d found show ?thesis
        by (simp add: orders_of_def update_monthly_def in_month_def
            find_map_first_other [where key = mb_name])
    qed
  qed
qed

lemma forEach_monthly_orders:
  "forEach_rows rt rows i st = Inr out \<Longrightarrow> normalize_all rows = Inr sales \<Longrightarrow>
   distinct (map mb_name (monthly st)) \<Longrightarrow> \<forall>b\<in>set (monthly st). mb_customers b = mb_orders b \<Longrightarrow>
   distinct (map mb_name (monthly out)) \<and>
   (\<forall>b\<in>set (monthly out). mb_customers b = mb_orders b) \<and>
   (\<forall>n. orders_of (monthly out) n = orders_of (monthly st) n + length (filter (in_month rt n) sales))"
proof (induction rows arbitrary: i st sales)
  case Nil
  then show ?case by simp
next
  case (Cons pg rows)
  from Cons.prems(2) obtain s ss where
    s: "normalize pg = Inr s" and ss: "normalize_all rows = Inr ss" and sales: "sales = s # ss"
    by (rule normalize_all_Cons)
  have d: "date s \<noteq> Some []" by (rule normalize_date_nonempty [OF s])
  show ?case
    using Cons.IH [OF Cons.prems(1) [unfolded forEach_Cons [OF s]] ss]
      update_monthly_distinct [OF Cons.prems(3)] update_monthly_customers [OF Cons.prems(4)]
    by (simp add: sales update_monthly_orders_of [OF d])
qed

section \<open>Product buckets\<close>






section \<open>The example rows\<close>

lemmas normalize_defs =
  normalize_def name_content_def product_content_def first_content_def amount_number_def
  date_start_def select_name_def or_num_def or_str_def or_null_def truthy_str_def

lemma example_rows_normalize: "normalize_all example_rows = Inr example_sales"
  by (simp add: example_rows_def example_sales_def example_page_def normalize_defs
      round64_numeral)

lemma example_rows12_normalize:
  "normalize_all (example_rows @ example_rows @ example_rows) =
     Inr (example_sales @ example_sales @ example_sales)"
  by (simp add: example_rows_def example_sales_def example_page_def normalize_defs
      round64_numeral)



section \<open>The orders list\<close>

lemma entries_from_length:
  "length (entries_from rt i rows sales) = min (length rows) (length sales)"
  by (induction rt i rows sales rule: entries_from.induct) auto

lemma entries_from_nth:
  "k < length rows \<Longrightarrow> k < length sales \<Longrightarrow>
   entries_from rt i rows sales ! k = order_of rt (rows ! k) (i + k) (sales ! k)"
proof (induction rt i rows sales arbitrary: k rule: entries_from.induct)
  case (1 rt i pg rows s sales)
  then show ?case by (cases k) auto
qed auto

lemma entries_from_take:
  "take n (entries_from rt i rows sales) = entries_from rt i (take n rows) (take n sales)"
proof (induction n arbitrary: i rows sales)
  case 0
  show ?case by simp
next
  case (Suc n)
  show ?case by (cases rows; cases sales) (simp_all add: Suc.IH)
qed

lemma forEach_orders:
  "forEach_rows rt rows i st = Inr out \<Longrightarrow> normalize_all rows = Inr sales \<Longrightarrow>
   orders out = orders st @ take (10 - length (orders st)) (entries_from rt i rows sales)"
proof (induction rows arbitrary: i st sales)
  case Nil
  then show ?case by simp
next
  case (Cons pg rows)
  from Cons.prems(2) obtain s ss where
    s: "normalize pg = Inr s" and ss: "normalize_all rows = Inr ss" and sales: "sales = s # ss"
    by (rule normalize_all_Cons)
  show ?case
    using Cons.IH [OF Cons.prems(1) [unfolded forEach_Cons [OF s]] ss]
    by (simp add: sales update_orders_def take_Cons')
qed

lemma aggregate_orders:
  assumes "aggregate rt rows = Inr out" and "normalize_all rows = Inr sales"
  shows "orders out = entries_from rt 0 (take 10 rows) (take 10 sales)"
  using forEach_orders [OF assms [unfolded aggregate_def]]
  by (simp add: agg_init_def entries_from_take)

text \<open>
  Claim C3. For an input of \<open>n\<close> records that normalize, the orders list has length
  \<open>min 10 n\<close>; its entries are derived one for one from the first ten records, in input
  order; and an entry whose record has no identifier gets \<open>#\<close> followed by the
  zero-padded 1-based position of the record in the whole input.
\<close>
theorem orders_first_ten:
  assumes "normalize_all rows = Inr sales"
  shows "\<exists>out. aggregate rt rows = Inr out \<and>
           length (orders out) = min 10 (length rows) \<and>
           orders out = entries_from rt 0 (take 10 rows) (take 10 sales) \<and>
           (\<forall>k < length (orders out).
              oe_customer (orders out ! k) = customerName (sales ! k) \<and>
              oe_product (orders out ! k) = productName (sales ! k) \<and>
              (\<not> truthy_str (page_id (rows ! k)) \<longrightarrow>
                 oe_id (orders out ! k) =
                   CHR ''#'' # padStart 4 CHR ''0'' (toString_radix 10 (k + 1))))"
proof -
  from forEach_succeeds [OF assms] obtain out where out: "aggregate rt rows = Inr out"
    unfolding aggregate_def by blast
  have len: "length sales = length rows" by (rule normalize_all_length [OF assms])
  have eq: "orders out = entries_from rt 0 (take 10 rows) (take 10 sales)"
    by (rule aggregate_orders [OF out assms])
  have n: "length (orders out) = min 10 (length rows)"
    by (simp add: eq entries_from_length len)
  have "oe_customer (orders out ! k) = customerName (sales ! k) \<and>
        oe_product (orders out ! k) = productName (sales ! k) \<and>
        (\<not> truthy_str (page_id (rows ! k)) \<longrightarrow>
           oe_id (orders out ! k) = CHR ''#'' # padStart 4 CHR ''0'' (toString_radix 10 (k + 1)))"
    if "k < length (orders out)" for k
  proof -
    from that n len have k: "k < length (take 10 rows)" "k < length (take 10 sales)" by auto
    from that n have k10: "k < 10" by simp
    have "orders out ! k = order_of rt (rows ! k) k (sales ! k)"
      using entries_from_nth [OF k, of rt 0] k10 by (simp add: eq)
    then show ?thesis
      by (auto simp: order_of_def or_str_def truthy_str_def sequence_id_def split: option.splits)
  qed
  with out n eq show ?thesis by blast
qed

theorem orders_first_ten_witness:
  "normalize_all (example_rows @ example_rows @ example_rows) =
     Inr (example_sales @ example_sales @ example_sales) \<and>
   (\<exists>out. aggregate example_runtime (example_rows @ example_rows @ example_rows) = Inr out \<and>
          length (orders out) = 10 \<and> oe_id (orders out ! 1) = ''#0002'')"
proof -
  have id: "\<not> truthy_str (page_id ((example_rows @ example_rows @ example_rows) ! 1))"
    by (simp add: example_rows_def example_page_def truthy_str_def)
  have len: "length (example_rows @ example_rows @ example_rows) = 12"
    by (simp add: example_rows_def)
  have pad: "CHR ''#'' # padStart 4 CHR ''0'' (toString_radix 10 (1 + 1)) = ''#0002''"
    by (simp add: padStart_def toString_radix.simps digit_char_def numeral_3_eq_3)
  from orders_first_ten [OF example_rows12_normalize, of example_runtime]
  obtain out where out: "aggregate example_runtime (example_rows @ example_rows @ example_rows) = Inr out"
    and n: "length (orders out) = min 10 (length (example_rows @ example_rows @ example_rows))"
    and ids: "\<forall>k < length (orders out).
                \<not> truthy_str (page_id ((example_rows @ example_rows @ example_rows) ! k)) \<longrightarrow>
                oe_id (orders out ! k) = CHR ''#'' # padStart 4 CHR ''0'' (toString_radix 10 (k + 1))"
    by blast
  from n len have n10: "length (orders out) = 10" by simp
  with ids id pad have "oe_id (orders out ! 1) = ''#0002''" by simp
  with out n10 example_rows12_normalize show ?thesis by blast
qed







text \<open>
  Claim C8. In every monthly bucket that the server-side aggregation produces,
  \<open>customers\<close> equals \<open>orders\<close>, and both are the number of dated sales of that month:
  \<open>customers\<close> grows by one for each sale, not for each distinct customer.
\<close>
theorem monthly_customers_eq_orders:
  assumes "normalize_all rows = Inr sales"
  shows "\<exists>out. aggregate rt rows = Inr out \<and>
           (\<forall>b\<in>set (monthly out).
              mb_customers b = mb_orders b \<and>
              mb_orders b = length (filter (in_month rt (mb_name b)) sales))"
proof -
  from forEach_succeeds [OF assms] obtain out where out: "aggregate rt rows = Inr out"
    unfolding aggregate_def by blast
  from forEach_monthly_orders [OF out [unfolded aggregate_def] assms]
  have d: "distinct (map mb_name (monthly out))"
    and same: "\<And>b. b \<in> set (monthly out) \<Longrightarrow> mb_customers b = mb_orders b"
    and each: "\<And>n. orders_of (monthly out) n = length (filter (in_month rt n) sales)"
    by (simp_all add: agg_init_def orders_of_def)
  have "mb_orders b = length (filter (in_month rt (mb_name b)) sales)"
    if "b \<in> set (monthly out)" for b
    using each [of "mb_name b"] find_distinct_member [OF d that] by (simp add: orders_of_def)
  with out same show ?thesis by blast
qed

theorem monthly_customers_eq_orders_witness:
  "normalize_all example_rows = Inr example_sales \<and>
   (\<exists>out. aggregate example_runtime example_rows = Inr out \<and>
          map mb_name (monthly out) = [''Jan 2025'', ''Feb 2025''] \<and>
          (\<forall>b\<in>set (monthly out). mb_customers b = mb_orders b))"
proof -
  have "aggregate example_runtime example_rows = Inr out \<Longrightarrow>
        map mb_name (monthly out) = [''Jan 2025'', ''Feb 2025'']" for out
    by (auto simp: example_rows_def example_page_def normalize_defs aggregate_def row_step_def
        agg_init_def update_monthly_def example_runtime_def iso_month_label_def month_abbr_def
        round64_numeral)
  with monthly_customers_eq_orders [OF example_rows_normalize, of example_runtime]
  show ?thesis by (auto simp: example_rows_normalize)
qed

section \<open>Normalization: failure and defaults\<close>

lemma normalize_returns:
  assumes "page_properties pg = Some props"
    and "\<And>p. Name props = Some p \<Longrightarrow> tp_title p \<noteq> None"
    and "\<And>q. Product_Name props = Some q \<Longrightarrow> rp_rich_text q \<noteq> None"
  shows "\<exists>s. normalize pg = Inr s"
  using assms
  by (auto simp: normalize_def name_content_def product_content_def split: option.splits)

text \<open>
  Claim C4 says that the normalization never fails, whatever the shape of the record.
  The code reads \<open>page.properties["Name"]?.title[0]\<close>: the index follows \<open>title\<close>
  without \<open>?.\<close>, so a page whose \<open>Name\<close> property is there but has no \<open>title\<close> array
  (a \<open>Name\<close> column of another type) makes the normalization throw a \<open>TypeError\<close>, and
  the whole fetch answers 500. The same holds for \<open>Product Name\<close> and \<open>rich_text\<close>.
\<close>
theorem normalize_throws_without_title:
  "normalize untitled_page = Inl TypeError \<and>
   get_proxy_notion example_runtime (Inr (Some [untitled_page])) =
     \<lparr> status = 500,
       body = FetchFailed False ''Failed to fetch data from Notion'' None \<rparr>"
  by (simp add: untitled_page_def normalize_def name_content_def get_proxy_notion_def
      try_fetch_def aggregate_def row_step_def response_data_def)

text \<open>
  Claim C10. The defaults apply to falsy values, not only to absent ones: when the
  customer name, the product name or the payment method is there as the empty string,
  the normalized sale carries \<open>Unknown\<close> for it, and a date that is there as the empty
  string is normalized to null.
\<close>
theorem falsy_values_default:
  assumes "normalize pg = Inr s" and "page_properties pg = Some props"
  shows "(name_content props = Inr (Some []) \<longrightarrow> customerName s = ''Unknown'') \<and>
         (product_content props = Inr (Some []) \<longrightarrow> productName s = ''Unknown'') \<and>
         (select_name props = Some [] \<longrightarrow> paymentMethod s = ''Unknown'') \<and>
         (date_start props = Some [] \<longrightarrow> date s = None)"
  using assms
  by (auto simp: normalize_def or_str_def or_null_def truthy_str_def split: sum.splits)

theorem falsy_values_default_witness:
  "page_properties blank_page = Some blank_properties \<and>
   name_content blank_properties = Inr (Some []) \<and>
   product_content blank_properties = Inr (Some []) \<and>
   select_name blank_properties = Some [] \<and>
   date_start blank_properties = Some [] \<and>
   normalize blank_page =
     Inr \<lparr> amount = Num 0, customerName = ''Unknown'', productName = ''Unknown'',
           date = None, paymentMethod = ''Unknown'' \<rparr>"
proof -
  have props: "page_properties blank_page = Some blank_properties"
    by (simp add: blank_page_def)
  have paths: "name_content blank_properties = Inr (Some [])"
    "product_content blank_properties = Inr (Some [])"
    "select_name blank_properties = Some []"
    "date_start blank_properties = Some []"
    by (simp_all add: blank_properties_def name_content_def product_content_def
        first_content_def select_name_def date_start_def)
  obtain s where s: "normalize blank_page = Inr s"
    using normalize_returns [OF props] by (auto simp: blank_properties_def)
  have amt: "amount s = Num 0"
    using s by (auto simp: blank_page_def blank_properties_def normalize_defs split: sum.splits)
  from falsy_values_default [OF s props] paths amt
  have "s = \<lparr> amount = Num 0, customerName = ''Unknown'', productName = ''Unknown'',
           date = None, paymentMethod = ''Unknown'' \<rparr>"
    by simp
  with s props paths show ?thesis by simp
qed

section \<open>Failure of the fetch\<close>

lemma aggregate_fails:
  "list_ex (\<lambda>pg. isl (normalize pg)) rows \<Longrightarrow> aggregate rt rows = Inl TypeError"
proof -
  assume "list_ex (\<lambda>pg. isl (normalize pg)) rows"
  then have "isl (normalize_all rows)" by (simp add: normalize_all_isl)
  then obtain e where "normalize_all rows = Inl e" by (cases "normalize_all rows") auto
  then have "aggregate rt rows = Inl e" unfolding aggregate_def by (rule forEach_fails)
  then show ?thesis by (cases e) simp
qed

lemma fetch_succeeds:
  assumes "\<not> fetch_fails upstream"
  shows "status (get_proxy_notion rt upstream) = 200"
proof -
  from assms obtain rows where u: "upstream = Inr (Some rows)"
    and ok: "\<not> list_ex (\<lambda>pg. isl (normalize pg)) rows"
    by (cases upstream rule: fetch_fails.cases) auto
  from ok have "\<not> isl (normalize_all rows)" by (simp add: normalize_all_isl)
  then obtain sales where "normalize_all rows = Inr sales" by (cases "normalize_all rows") auto
  from forEach_succeeds [OF this] obtain out where "aggregate rt rows = Inr out"
    unfolding aggregate_def by blast
  then show ?thesis by (simp add: u get_proxy_notion_def try_fetch_def)
qed

text \<open>
  Claim C7. Whenever the fetch fails, whatever the cause and whatever status the
  external service answered with, the response has status 500 and the body
  \<open>{success: false, message, error}\<close>, where \<open>error\<close> is the data of the upstream
  answer (undefined when there is none).
\<close>
theorem fetch_failure_is_500:
  assumes "fetch_fails upstream"
  shows "get_proxy_notion rt upstream =
           \<lparr> status = 500,
             body = FetchFailed False ''Failed to fetch data from Notion''
                      (case upstream of
                         Inl err \<Rightarrow> (case ae_response err of None \<Rightarrow> None | Some r \<Rightarrow> er_data r)
                       | Inr rows \<Rightarrow> None) \<rparr>"
  using assms
  by (cases upstream rule: fetch_fails.cases)
     (simp_all add: get_proxy_notion_def try_fetch_def response_data_def aggregate_fails)

theorem fetch_failure_is_500_witness:
  "fetch_fails (Inl not_found) \<and>
   get_proxy_notion example_runtime (Inl not_found) =
     \<lparr> status = 500,
       body = FetchFailed False ''Failed to fetch data from Notion''
                (Some (JObj [(''message'', JStr ''Could not find database'')])) \<rparr>"
proof -
  have f: "fetch_fails (Inl not_found)" by simp
  from fetch_failure_is_500 [OF f, of example_runtime] f show ?thesis
    by (simp add: not_found_def)
qed

section \<open>Validation of a create request\<close>

lemma create_rejects_falsy:
  assumes "\<not> truthy (req_body ''amount'') \<or> \<not> truthy (req_body ''customerName'') \<or>
           \<not> truthy (req_body ''productName'') \<or> \<not> truthy (req_body ''date'') \<or>
           \<not> truthy (req_body ''paymentMethod'')"
  shows "post_proxy_notion rt create_page (Some req_body) =
           (\<lparr> status = 400,
              body = CreateError ''error'' (Some (JStr ''Missing required fields'')) None \<rparr>, [])"
  using assms by (auto simp: post_proxy_notion_def Let_def)

lemma create_rejects_absent_field:
  assumes "req_body ''amount'' = None \<or> req_body ''customerName'' = None \<or>
           req_body ''productName'' = None \<or> req_body ''date'' = None \<or>
           req_body ''paymentMethod'' = None"
  shows "post_proxy_notion rt create_page (Some req_body) =
           (\<lparr> status = 400,
              body = CreateError ''error'' (Some (JStr ''Missing required fields'')) None \<rparr>, [])"
  using assms by (intro create_rejects_falsy) auto

lemma create_without_date:
  "post_proxy_notion example_runtime accepting_service (Some body_without_date) =
     (\<lparr> status = 400,
        body = CreateError ''error'' (Some (JStr ''Missing required fields'')) None \<rparr>, [])"
  by (rule create_rejects_absent_field) (simp add: body_without_date_def)

text \<open>
  Claim C6 says that a create request in which a field is absent is answered with 400
  and the missing-fields message, with no outbound call. That holds when the body was
  parsed to an object (\<open>create_rejects_absent_field\<close>). When no body was parsed,
  \<open>req.body\<close> is \<open>undefined\<close>, all five fields are absent, and the destructuring at the
  head of the \<open>try\<close> throws before the validation runs: the \<open>catch\<close> answers 500 with the
  message of a failed page creation. No outbound call is made.
\<close>
theorem create_without_body_is_500:
  "post_proxy_notion rt create_page None =
     (\<lparr> status = 500,
        body = CreateError ''error'' (Some (JStr ''Failed to create page in Notion'')) None \<rparr>,
      [])"
  by (simp add: post_proxy_notion_def create_failed_def response_data_def or_json_def)

theorem create_without_body_is_500_witness:
  "post_proxy_notion example_runtime accepting_service None =
     (\<lparr> status = 500,
        body = CreateError ''error'' (Some (JStr ''Failed to create page in Notion'')) None \<rparr>,
      [])"
  by (rule create_without_body_is_500)

text \<open>
  Claim C9 ends with: a sale with amount 0 can never be created through the gateway.
  That part fails. The amount \<open>"0"\<close>, a string as the form of the dashboard sends it, is
  truthy; the request passes the validation, and the handler sends the external service
  a page whose \<open>Amount\<close> is \<open>parseFloat("0")\<close>, the number \<open>0\<close>.
\<close>
theorem string_zero_amount_counterexample:
  "post_proxy_notion example_runtime accepting_service (Some body_string_zero) =
     (\<lparr> status = 200,
        body = Created ''success'' ''Data successfully saved to Notion'' (Some (JStr ''page-1'')) \<rparr>,
      [\<lparr> nd_Amount = Num 0,
         nd_Name = Some (JStr ''Ann''),
         nd_Product_Name = Some (JStr ''Widget''),
         nd_Order_Date = Some (JStr ''2025-01-20''),
         nd_Select = Some (JStr ''Cash'') \<rparr>])"
  by (simp add: post_proxy_notion_def body_string_zero_def example_runtime_def
      accepting_service_def digit_value_def round64_def)

text \<open>
  Claim C9, as amended. A field that is there but falsy (the number \<open>0\<close> as amount, or the
  empty string in any of the five fields) is rejected like an absent one: status 400, the
  missing-fields message, no outbound call. So no request whose amount is the number
  \<open>0\<close> creates a sale.
\<close>
theorem create_rejects_falsy_field:
  assumes "req_body ''amount'' = Some (JNum 0) \<or> req_body ''customerName'' = Some (JStr []) \<or>
           req_body ''productName'' = Some (JStr []) \<or> req_body ''date'' = Some (JStr []) \<or>
           req_body ''paymentMethod'' = Some (JStr [])"
  shows "post_proxy_notion rt create_page (Some req_body) =
           (\<lparr> status = 400,
              body = CreateError ''error'' (Some (JStr ''Missing required fields'')) None \<rparr>, [])"
  using assms by (intro create_rejects_falsy) auto

theorem create_rejects_falsy_field_witness:
  "body_number_zero ''amount'' = Some (JNum 0) \<and>
   post_proxy_notion example_runtime accepting_service (Some body_number_zero) =
     (\<lparr> status = 400,
        body = CreateError ''error'' (Some (JStr ''Missing required fields'')) None \<rparr>, [])"
proof -
  have a: "body_number_zero ''amount'' = Some (JNum 0)" by (simp add: body_number_zero_def)
  then have "body_number_zero ''amount'' = Some (JNum 0) \<or>
       body_number_zero ''customerName'' = Some (JStr []) \<or>
       body_number_zero ''productName'' = Some (JStr []) \<or>
       body_number_zero ''date'' = Some (JStr []) \<or>
       body_number_zero ''paymentMethod'' = Some (JStr [])" by simp
  from create_rejects_falsy_field [OF this] a show ?thesis by simp
qed

section \<open>The optimistic update against the server-side rule\<close>

lemma set_monthlyData_new_customer:
  assumes "distinct (map mb_name prev)"
    and "\<not> list_ex (\<lambda>order. oe_customer order = customerName s) recent \<or>
         find (\<lambda>item. mb_name item = monthLabel rt d) prev = None"
    and "date s = Some d" and "d \<noteq> []"
  shows "set_monthlyData (monthLabel rt d) (amount s) (customerName s) recent prev =
         update_monthly rt s prev"
  using assms
  by (auto simp: set_monthlyData_def update_monthly_def Let_def
      map_first_distinct_eq_map [where key = mb_name] split: option.splits)

lemma set_monthlyData_fields:
  assumes "distinct (map mb_name prev)" and "date s = Some d" and "d \<noteq> []"
  shows "map mb_name (set_monthlyData (monthLabel rt d) (amount s) c recent prev) =
           map mb_name (update_monthly rt s prev)"
    and "map mb_revenue (set_monthlyData (monthLabel rt d) (amount s) c recent prev) =
           map mb_revenue (update_monthly rt s prev)"
    and "map mb_orders (set_monthlyData (monthLabel rt d) (amount s) c recent prev) =
           map mb_orders (update_monthly rt s prev)"
  using assms
  by (auto simp: set_monthlyData_def update_monthly_def Let_def
      map_first_distinct_eq_map [where key = mb_name] split: option.splits)

lemma set_monthlyData_known_customer:
  assumes "list_ex (\<lambda>order. oe_customer order = c) recent"
    and "find (\<lambda>item. mb_name item = month) prev \<noteq> None"
  shows "map mb_customers (set_monthlyData month a c recent prev) = map mb_customers prev"
  using assms by (auto simp: set_monthlyData_def Let_def split: option.splits)

lemma set_productData_fields:
  assumes "distinct (map pb_name prev)"
  shows "map pb_name (set_productData (productName s) (amount s) prev) =
           map pb_name (update_products rt s k prev)"
    and "map pb_value (set_productData (productName s) (amount s) prev) =
           map pb_value (update_products rt s k prev)"
  using assms
  by (auto simp: set_productData_def update_products_def Let_def
      map_first_distinct_eq_map [where key = pb_name] split: option.splits)

lemma set_monthlyData_names:
  "map mb_name (set_monthlyData month a c recent prev) =
     (case find (\<lambda>item. mb_name item = month) prev of
        Some existingMonth \<Rightarrow> map mb_name prev
      | None \<Rightarrow> map mb_name prev @ [month])"
  by (auto simp: set_monthlyData_def Let_def split: option.splits)

lemma set_productData_names:
  "map pb_name (set_productData product a prev) =
     (case find (\<lambda>item. pb_name item = product) prev of
        Some existingProduct \<Rightarrow> map pb_name prev
      | None \<Rightarrow> map pb_name prev @ [product])"
  by (auto simp: set_productData_def Let_def split: option.splits)

lemma handleFormSubmit_distinct:
  assumes "distinct (map mb_name (monthlyData st))" and "distinct (map pb_name (productData st))"
  shows "distinct (map mb_name (monthlyData (handleFormSubmit rt now form st))) \<and>
         distinct (map pb_name (productData (handleFormSubmit rt now form st)))"
  using assms
  by (auto simp: handleFormSubmit_def Let_def set_monthlyData_names set_productData_names
      find_None_key split: option.splits)

text \<open>
  Claim C5 says that the optimistic update gives the same numeric fields as the
  server-side rule. It does not for \<open>customers\<close>: the dashboard adds one only when no
  recent order carries the customer's name, the server adds one for every sale.
\<close>
theorem optimistic_customers_counterexample:
  "map mb_customers (monthlyData (handleFormSubmit example_runtime 0 example_form example_dashboard))
     = [1] \<and>
   map mb_customers
     (update_monthly example_runtime (sale_of_form example_runtime example_form)
        (monthlyData example_dashboard)) = [2]"
  by (simp add: handleFormSubmit_def set_monthlyData_def update_monthly_def sale_of_form_def
      example_runtime_def example_form_def example_dashboard_def iso_month_label_def
      month_abbr_def Let_def)

text \<open>
  Claim C5, as amended. On a state whose monthly buckets have distinct names and whose
  product buckets have distinct names, and for a submitted sale with a non-empty date,
  the optimistic update gives the monthly buckets the names, \<open>revenue\<close> and \<open>orders\<close>,
  and the product buckets the names and \<open>value\<close>, that the server-side update rule gives
  for that sale. The \<open>customers\<close> fields agree as well when the customer of the sale is
  not among the recent orders; when it is, the dashboard leaves \<open>customers\<close> as it was.
\<close>
theorem optimistic_update_matches_server:
  assumes "distinct (map mb_name (monthlyData st))"
    and "distinct (map pb_name (productData st))"
    and "f_date form \<noteq> []"
  shows "map mb_name (monthlyData (handleFormSubmit rt now form st)) =
           map mb_name (update_monthly rt (sale_of_form rt form) (monthlyData st)) \<and>
         map mb_revenue (monthlyData (handleFormSubmit rt now form st)) =
           map mb_revenue (update_monthly rt (sale_of_form rt form) (monthlyData st)) \<and>
         map mb_orders (monthlyData (handleFormSubmit rt now form st)) =
           map mb_orders (update_monthly rt (sale_of_form rt form) (monthlyData st)) \<and>
         map pb_name (productData (handleFormSubmit rt now form st)) =
           map pb_name (update_products rt (sale_of_form rt form) k (productData st)) \<and>
         map pb_value (productData (handleFormSubmit rt now form st)) =
           map pb_value (update_products rt (sale_of_form rt form) k (productData st)) \<and>
         (if list_ex (\<lambda>order. oe_customer order = f_customerName form) (recentOrders st) \<and>
             find (\<lambda>item. mb_name item = monthLabel rt (f_date form)) (monthlyData st) \<noteq> None
          then map mb_customers (monthlyData (handleFormSubmit rt now form st)) =
                 map mb_customers (monthlyData st)
          else monthlyData (handleFormSubmit rt now form st) =
                 update_monthly rt (sale_of_form rt form) (monthlyData st))"
proof -
  let ?s = "sale_of_form rt form"
  have s: "date ?s = Some (f_date form)" "amount ?s = parseFloat rt (Some (JStr (f_amount form)))"
    "customerName ?s = f_customerName form" "productName ?s = f_productName form"
    by (simp_all add: sale_of_form_def)
  have m: "monthlyData (handleFormSubmit rt now form st) =
           set_monthlyData (monthLabel rt (f_date form)) (amount ?s) (customerName ?s)
             (recentOrders st) (monthlyData st)"
    by (simp add: handleFormSubmit_def Let_def s)
  have p: "productData (handleFormSubmit rt now form st) =
           set_productData (productName ?s) (amount ?s) (productData st)"
    by (simp add: handleFormSubmit_def Let_def s)
  note mf = set_monthlyData_fields [OF assms(1) s(1) assms(3), of rt]
  note pf = set_productData_fields [OF assms(2), of ?s rt k]
  show ?thesis
  proof (cases "list_ex (\<lambda>order. oe_customer order = f_customerName form) (recentOrders st) \<and>
      find (\<lambda>item. mb_name item = monthLabel rt (f_date form)) (monthlyData st) \<noteq> None")
    case True
    then have "map mb_customers (monthlyData (handleFormSubmit rt now form st)) =
               map mb_customers (monthlyData st)"
      unfolding m s(3) by (intro set_monthlyData_known_customer) auto
    then show ?thesis
      by (subst if_P [OF True]) (simp add: m p mf pf)
  next
    case False
    then have "monthlyData (handleFormSubmit rt now form st) = update_monthly rt ?s (monthlyData st)"
      unfolding m
      by (intro set_monthlyData_new_customer [OF assms(1) _ s(1) assms(3)]) (auto simp: s)
    then show ?thesis
      by (subst if_not_P [OF False]) (simp add: p pf)
  qed
qed

theorem optimistic_update_matches_server_witness:
  "distinct (map mb_name (monthlyData example_dashboard)) \<and>
   distinct (map pb_name (productData example_dashboard)) \<and>
   f_date example_form \<noteq> [] \<and>
   map mb_revenue (monthlyData (handleFormSubmit example_runtime 0 example_form example_dashboard))
     = [Num 150] \<and>
   map mb_orders (monthlyData (handleFormSubmit example_runtime 0 example_form example_dashboard))
     = [2] \<and>
   map pb_value (productData (handleFormSubmit example_runtime 0 example_form example_dashboard))
     = [Num 150]"
proof -
  have h: "distinct (map mb_name (monthlyData example_dashboard))"
    "distinct (map pb_name (productData example_dashboard))"
    "f_date example_form \<noteq> []"
    by (simp_all add: example_dashboard_def example_form_def)
  have server: "map mb_revenue (update_monthly example_runtime
        (sale_of_form example_runtime example_form) (monthlyData example_dashboard)) = [Num 150]"
    "map mb_orders (update_monthly example_runtime
        (sale_of_form example_runtime example_form) (monthlyData example_dashboard)) = [2]"
    "map pb_value (update_products example_runtime
        (sale_of_form example_runtime example_form) 0 (productData example_dashboard)) = [Num 150]"
    by (simp_all add: update_monthly_def update_products_def sale_of_form_def
        example_runtime_def example_form_def example_dashboard_def iso_month_label_def
        month_abbr_def digit_value_def plus_jsnum_def round64_numeral)
  from optimistic_update_matches_server [OF h, of example_runtime 0 0] server h
  show ?thesis by simp
qed

end
